theory Spec2Isabelle
  imports Main "HOL-Library.Multiset" "HOL-Library.AList"
begin

section \<open>The parsed document (BeautifulSoup tree)\<close>

text \<open>
  \<^verbatim>\<open>render_xrl\<close> works on the tree that BeautifulSoup builds with \<^verbatim>\<open>html.parser\<close>.
  A node is a tag or a string. Python objects have an identity; the model keeps it as a
  field: the parser numbers the nodes it builds, and each node that \<^verbatim>\<open>render_xrl\<close>
  creates itself is named after the place that creates it (each such place runs once
  per call).

  BeautifulSoup stores the attributes of a tag in a dict. For an HTML document the values
  of \<^verbatim>\<open>class\<close> (on every tag) and \<^verbatim>\<open>rel\<close> (on \<^verbatim>\<open>link\<close> tags) are lists of
  whitespace-separated tokens, every other attribute that the code reads (\<^verbatim>\<open>src\<close>,
  \<^verbatim>\<open>href\<close>, \<^verbatim>\<open>content\<close>, \<^verbatim>\<open>itemprop\<close>) is a plain string. The record keeps the
  two token lists as fields of their own (\<open>classes\<close> is empty when the tag has no
  \<^verbatim>\<open>class\<close> attribute, \<open>rel\<close> is \<open>None\<close> when it has no \<^verbatim>\<open>rel\<close> attribute) and the
  string-valued attributes as an association list.
\<close>

datatype ident = Parsed nat | Created string

record tag =
  nid :: ident
  name :: string
  classes :: "string list"
  rel :: "string list option"
  attrs :: "(string \<times> string) list"

datatype node = Tag tag "node list" | NavStr ident string

datatype error = AttributeError | JavascriptException | NoSuchElementException

text \<open>The two functions of \<^verbatim>\<open>urllib.parse\<close> that \<^verbatim>\<open>fix_link\<close> calls: the \<^verbatim>\<open>netloc\<close>
  component of \<^verbatim>\<open>urlparse(link)\<close>, and \<^verbatim>\<open>urljoin(base, link)\<close>. They belong to the
  Python standard library, so the functions of the repository take them as a parameter.\<close>

record urllib =
  urlparse_netloc :: "string \<Rightarrow> string"
  urljoin :: "string \<Rightarrow> string \<Rightarrow> string"

subsection \<open>Searching and detaching\<close>

definition has_name :: "string \<Rightarrow> node \<Rightarrow> bool" where
  "has_name n x = (case x of Tag d cs \<Rightarrow> name d = n | NavStr i s \<Rightarrow> False)"

text \<open>\<^verbatim>\<open>find_all(class_=c)\<close>: a tag matches when \<open>c\<close> is one of its class tokens.\<close>

definition has_class :: "string \<Rightarrow> node \<Rightarrow> bool" where
  "has_class c x = (case x of Tag d cs \<Rightarrow> c \<in> set (classes d) | NavStr i s \<Rightarrow> False)"

text \<open>
  \<^verbatim>\<open>[element.extract() for element in soup.find_all(...)]\<close>.
  \<^verbatim>\<open>find_all\<close> first collects, in document order (a tag before its descendants), every
  matching tag below the soup; the comprehension then detaches them one after the other
  and keeps the references. A match \<open>B\<close> inside a match \<open>A\<close> comes after \<open>A\<close> in the
  list, so \<open>A\<close> is detached with \<open>B\<close> still in it, and \<open>B\<close> is then detached from
  \<open>A\<close>: at the end the list holds \<open>A\<close> without \<open>B\<close>, and \<open>B\<close>. The function returns
  the list of detached tags as they are at the end of the comprehension, and what is left
  of the forest it searched.
\<close>

fun extract_all :: "(node \<Rightarrow> bool) \<Rightarrow> node list \<Rightarrow> node list \<times> node list" where
  "extract_all P [] = ([], [])"
| "extract_all P (NavStr i s # ns) =
     (let (xs, rs) = extract_all P ns in (xs, NavStr i s # rs))"
| "extract_all P (Tag d cs # ns) =
     (let (xs1, cs') = extract_all P cs;
          (xs2, rs) = extract_all P ns
      in if P (Tag d cs) then (Tag d cs' # xs1 @ xs2, rs)
         else (xs1 @ xs2, Tag d cs' # rs))"

text \<open>\<^verbatim>\<open>soup.find(...)\<close> followed by a change of the tag found: the first match in
  document order is replaced by its image under \<open>f\<close>; \<open>None\<close> when nothing matches.\<close>

fun upd_first :: "(node \<Rightarrow> bool) \<Rightarrow> (node \<Rightarrow> node) \<Rightarrow> node list \<Rightarrow> node list option" where
  "upd_first P f [] = None"
| "upd_first P f (NavStr i s # ns) = map_option (\<lambda>r. NavStr i s # r) (upd_first P f ns)"
| "upd_first P f (Tag d cs # ns) =
     (if P (Tag d cs) then Some (f (Tag d cs) # ns)
      else case upd_first P f cs of
             Some cs' \<Rightarrow> Some (Tag d cs' # ns)
           | None \<Rightarrow> map_option (\<lambda>r. Tag d cs # r) (upd_first P f ns))"

text \<open>The \<^verbatim>\<open>.string\<close> property: the only child if it is a string, the \<^verbatim>\<open>.string\<close> of
  the only child if it is a tag, \<^verbatim>\<open>None\<close> otherwise.\<close>

fun tag_string :: "node \<Rightarrow> string option" where
  "tag_string (NavStr i s) = Some s"
| "tag_string (Tag d [c]) = tag_string c"
| "tag_string (Tag d cs) = None"

text \<open>What an f-string prints for the value of \<^verbatim>\<open>.string\<close>.\<close>

definition py_format :: "string option \<Rightarrow> string" where
  "py_format v = (case v of Some s \<Rightarrow> s | None \<Rightarrow> ''None'')"

text \<open>Assigning to \<^verbatim>\<open>.string\<close> clears the tag and appends one new string.\<close>

definition set_string :: "string \<Rightarrow> node \<Rightarrow> node" where
  "set_string s x = (case x of Tag d cs \<Rightarrow> Tag d [NavStr (Created ''title-string'') s]
                     | NavStr i t \<Rightarrow> NavStr i t)"

definition new_tag :: "string \<Rightarrow> string \<Rightarrow> string list \<Rightarrow> (string \<times> string) list \<Rightarrow> tag" where
  "new_tag site n cls as = \<lparr>nid = Created site, name = n, classes = cls, rel = None, attrs = as\<rparr>"

definition insert0 :: "node \<Rightarrow> node \<Rightarrow> node" where
  "insert0 c x = (case x of Tag d cs \<Rightarrow> Tag d (c # cs) | NavStr i t \<Rightarrow> NavStr i t)"

subsection \<open>Link Normalizer\<close>

definition fix_link :: "urllib \<Rightarrow> string \<Rightarrow> string \<Rightarrow> string" where
  "fix_link L link base_url =
     (if urlparse_netloc L link \<noteq> [] then link else urljoin L base_url link)"

definition fix_tag :: "urllib \<Rightarrow> string \<Rightarrow> tag \<Rightarrow> tag" where
  "fix_tag L url d =
     (if name d \<in> set [''script'', ''link'', ''img'', ''meta''] then
        (case map_of (attrs d) ''src'' of
           Some v \<Rightarrow> d\<lparr>attrs := AList.update ''src'' (fix_link L v url) (attrs d)\<rparr>
         | None \<Rightarrow>
            (case map_of (attrs d) ''href'' of
               Some v \<Rightarrow> d\<lparr>attrs := AList.update ''href'' (fix_link L v url) (attrs d)\<rparr>
             | None \<Rightarrow>
                (case map_of (attrs d) ''content'' of
                   Some v \<Rightarrow>
                     if v \<noteq> [] \<and> map_of (attrs d) ''itemprop'' = Some ''image''
                     then d\<lparr>attrs := AList.update ''content'' (fix_link L v url) (attrs d)\<rparr>
                     else d
                 | None \<Rightarrow> d)))
      else d)"

fun fix_links :: "urllib \<Rightarrow> string \<Rightarrow> node list \<Rightarrow> node list" where
  "fix_links L url [] = []"
| "fix_links L url (NavStr i s # ns) = NavStr i s # fix_links L url ns"
| "fix_links L url (Tag d cs # ns) = Tag (fix_tag L url d) (fix_links L url cs) # fix_links L url ns"

subsection \<open>Zone Classifier\<close>

record xrl_result =
  xrl_main :: "node list"
  xrl_head :: "node list"
  xrl_below :: "node list"
  xrl_right :: "node list"
  xrl_left :: "node list"
  head_list :: "node list"
  footer_list :: "node list"
  style_list :: "node list"
  script_list :: "node list"

text \<open>Lines 523 to 542: the scheme default, the title, the base tag, the links. The
  conditional expression of line 529 is the right-hand side of the assignment, so the
  target \<^verbatim>\<open>soup.title.string\<close> is evaluated on both branches; without a title
  \<^verbatim>\<open>soup.title\<close> is \<^verbatim>\<open>None\<close> and the assignment raises.\<close>

definition default_scheme :: "string \<Rightarrow> string" where
  "default_scheme url = (if take 4 url = ''http'' then url else ''http://'' @ url)"

definition set_title :: "node list \<Rightarrow> error + node list" where
  "set_title soup =
     (case upd_first (has_name ''title'')
             (\<lambda>t. set_string (''XRL View - '' @ py_format (tag_string t)) t) soup of
        None \<Rightarrow> Inl AttributeError
      | Some soup' \<Rightarrow> Inr soup')"

definition add_base :: "string \<Rightarrow> node list \<Rightarrow> node list" where
  "add_base url soup =
     (case upd_first (has_name ''head'')
             (insert0 (Tag (new_tag ''base'' ''base'' [] [(''href'', url)]) [])) soup of
        None \<Rightarrow> soup
      | Some soup' \<Rightarrow> soup')"

definition prepare :: "urllib \<Rightarrow> string \<Rightarrow> node list \<Rightarrow> error + node list" where
  "prepare L url0 soup =
     (let url = default_scheme url0 in
      case set_title soup of
        Inl e \<Rightarrow> Inl e
      | Inr s1 \<Rightarrow> Inr (fix_links L url (add_base url s1)))"

text \<open>Lines 544 to 556: the six comprehensions, each on what the one before left.\<close>

record extraction =
  ex_ignore :: "node list"
  ex_head :: "node list"
  ex_left :: "node list"
  ex_right :: "node list"
  ex_main :: "node list"
  ex_below :: "node list"
  ex_rest :: "node list"

definition extract_zones :: "node list \<Rightarrow> extraction" where
  "extract_zones soup =
     (let (ign, s1) = extract_all (has_class ''XRL-ignore'') soup;
          (hdz, s2) = extract_all (has_class ''XRL-head'') s1;
          (lf, s3) = extract_all (has_class ''XRL-left'') s2;
          (rt, s4) = extract_all (has_class ''XRL-right'') s3;
          (mn, s5) = extract_all (has_class ''XRL-main'') s4;
          (bl, s6) = extract_all (has_class ''XRL-below'') s5
      in \<lparr>ex_ignore = ign, ex_head = hdz, ex_left = lf, ex_right = rt,
          ex_main = mn, ex_below = bl, ex_rest = s6\<rparr>)"

text \<open>Lines 563 to 572: the supporting lists, searched below \<^verbatim>\<open>soup\<close>.\<close>

definition is_stylesheet :: "node \<Rightarrow> bool" where
  "is_stylesheet x = (case x of Tag d cs \<Rightarrow> (case rel d of Some ts \<Rightarrow> ''stylesheet'' \<in> set ts | None \<Rightarrow> False)
                      | NavStr i s \<Rightarrow> False)"

record supporting =
  sp_head :: "node list"
  sp_footer :: "node list"
  sp_script :: "node list"
  sp_style :: "node list"
  sp_rest :: "node list"

definition extract_supporting :: "node list \<Rightarrow> supporting" where
  "extract_supporting soup =
     (let (hs, s1) = extract_all (has_name ''head'') soup;
          (fs, s2) = extract_all (has_name ''footer'') s1;
          (ss, s3) = extract_all (has_name ''script'') s2;
          (ls, s4) = extract_all (has_name ''link'') s3
      in \<lparr>sp_head = hs @ filter (\<lambda>x. \<not> is_stylesheet x) ls, sp_footer = fs, sp_script = ss,
          sp_style = filter is_stylesheet ls, sp_rest = s4\<rparr>)"

text \<open>
  Lines 559 to 561 make the wrapper and append the soup object to it. What
  \<^verbatim>\<open>Tag.append\<close> does with a \<^verbatim>\<open>BeautifulSoup\<close> object is decided by the library,
  and its versions differ: either the object becomes the only child of the wrapper
  (\<open>NestsSoup\<close>), or the children of the object are moved into the wrapper one by one
  and the object is left empty (\<open>MovesChildren\<close>). The functions of the repository take
  the behaviour as a parameter.
\<close>

datatype append_mode = NestsSoup | MovesChildren

definition soup_object :: "node list \<Rightarrow> node" where
  "soup_object contents = Tag (new_tag ''soup'' ''[document]'' [] []) contents"

text \<open>What is below the soup object after line 561: the searches of lines 564 to 568
  run on it.\<close>

definition soup_after_append :: "append_mode \<Rightarrow> node list \<Rightarrow> node list" where
  "soup_after_append A contents = (case A of NestsSoup \<Rightarrow> contents | MovesChildren \<Rightarrow> [])"

text \<open>The wrapper as the result holds it. With the soup object nested in it, it shows
  what the supporting lists left below the soup object (\<open>left\<close>); otherwise it holds
  the children moved at line 561 (\<open>contents\<close>).\<close>

definition legacy_content :: "append_mode \<Rightarrow> node list \<Rightarrow> node list \<Rightarrow> node" where
  "legacy_content A contents left =
     Tag (new_tag ''legacy'' ''div'' [''XRL-below''] [(''id'', ''XRL-computed-legacy'')])
         (case A of NestsSoup \<Rightarrow> [soup_object left] | MovesChildren \<Rightarrow> contents)"

definition classify :: "append_mode \<Rightarrow> node list \<Rightarrow> xrl_result" where
  "classify A soup =
     (let z = extract_zones soup;
          s = extract_supporting (soup_after_append A (ex_rest z))
      in \<lparr>xrl_main = take 1 (ex_main z),
          xrl_head = ex_head z,
          xrl_below = drop 1 (ex_main z) @ ex_below z @ [legacy_content A (ex_rest z) (sp_rest s)],
          xrl_right = ex_right z,
          xrl_left = ex_left z,
          head_list = sp_head s,
          footer_list = sp_footer s,
          style_list = sp_style s,
          script_list = sp_script s\<rparr>)"

definition render_xrl :: "urllib \<Rightarrow> append_mode \<Rightarrow> string \<Rightarrow> node list \<Rightarrow> error + xrl_result" where
  "render_xrl L A url soup =
     (case prepare L url soup of
        Inl e \<Rightarrow> Inl e
      | Inr s \<Rightarrow> Inr (classify A s))"

section \<open>A model of the two library functions\<close>

text \<open>
  \<^verbatim>\<open>urlparse\<close> and \<^verbatim>\<open>urljoin\<close> of CPython's \<^verbatim>\<open>urllib.parse\<close>, for \<^verbatim>\<open>str\<close> arguments,
  written after the library's code (\<^verbatim>\<open>urlsplit\<close>, \<^verbatim>\<open>_splitnetloc\<close>, \<^verbatim>\<open>_splitparams\<close>,
  \<^verbatim>\<open>urlunsplit\<close>, \<^verbatim>\<open>urljoin\<close>). Left out: the stripping of control characters and
  of tab, CR and LF that recent versions do first, and the \<^verbatim>\<open>ValueError\<close> for a
  malformed bracketed host. It gives the parameter \<open>urllib\<close> a concrete value.
\<close>

definition is_alpha :: "char \<Rightarrow> bool" where
  "is_alpha c = (let n = (of_char c :: nat) in (65 \<le> n \<and> n \<le> 90) \<or> (97 \<le> n \<and> n \<le> 122))"

definition is_digit :: "char \<Rightarrow> bool" where
  "is_digit c = (let n = (of_char c :: nat) in 48 \<le> n \<and> n \<le> 57)"

definition lower :: "char \<Rightarrow> char" where
  "lower c = (let n = (of_char c :: nat) in if 65 \<le> n \<and> n \<le> 90 then char_of (n + 32) else c)"

definition scheme_char :: "char \<Rightarrow> bool" where
  "scheme_char c = (is_alpha c \<or> is_digit c \<or> c \<in> set ''+-.'')"

definition uses_relative :: "string list" where
  "uses_relative = ['''', ''ftp'', ''http'', ''gopher'', ''nntp'', ''imap'', ''wais'', ''file'',
     ''https'', ''shttp'', ''mms'', ''prospero'', ''rtsp'', ''rtspu'', ''sftp'', ''svn'',
     ''svn+ssh'', ''ws'', ''wss'']"

definition uses_netloc :: "string list" where
  "uses_netloc = ['''', ''ftp'', ''http'', ''gopher'', ''nntp'', ''telnet'', ''imap'', ''wais'',
     ''file'', ''mms'', ''https'', ''shttp'', ''snews'', ''prospero'', ''rtsp'', ''rtspu'',
     ''rsync'', ''svn'', ''svn+ssh'', ''sftp'', ''nfs'', ''git'', ''git+ssh'', ''ws'', ''wss'']"

definition uses_params :: "string list" where
  "uses_params = ['''', ''ftp'', ''hdl'', ''prospero'', ''http'', ''imap'', ''https'', ''shttp'',
     ''rtsp'', ''rtspu'', ''sip'', ''sips'', ''mms'', ''sftp'', ''tel'']"

text \<open>\<^verbatim>\<open>s.split(c, 1)\<close> when \<open>c\<close> occurs in \<open>s\<close>: the text before the first \<open>c\<close> and the
  text after it.\<close>

definition split_once :: "char \<Rightarrow> string \<Rightarrow> string \<times> string" where
  "split_once c s = (takeWhile (\<lambda>x. x \<noteq> c) s, drop 1 (dropWhile (\<lambda>x. x \<noteq> c) s))"

text \<open>\<^verbatim>\<open>s.split(c)\<close> and \<^verbatim>\<open>c.join(xs)\<close>.\<close>

fun split_on :: "char \<Rightarrow> string \<Rightarrow> string list" where
  "split_on c [] = [[]]"
| "split_on c (x # xs) =
     (case split_on c xs of
        [] \<Rightarrow> [[]]
      | w # ws \<Rightarrow> if x = c then [] # w # ws else (x # w) # ws)"

fun join_with :: "char \<Rightarrow> string list \<Rightarrow> string" where
  "join_with c [] = []"
| "join_with c [w] = w"
| "join_with c (w # v # ws) = w @ c # join_with c (v # ws)"

record split_result =
  sr_scheme :: string
  sr_netloc :: string
  sr_path :: string
  sr_query :: string
  sr_fragment :: string

definition urlsplit :: "string \<Rightarrow> string \<Rightarrow> split_result" where
  "urlsplit url0 scheme0 =
     (let pre = takeWhile (\<lambda>x. x \<noteq> CHR '':'') url0;
          (scheme, url1) =
            (if CHR '':'' \<in> set url0 \<and> pre \<noteq> [] \<and> is_alpha (hd pre) \<and> list_all scheme_char pre
             then (map lower pre, drop (length pre + 1) url0)
             else (scheme0, url0));
          (netloc, url2) =
            (if take 2 url1 = ''//''
             then (takeWhile (\<lambda>x. x \<notin> set ''/?#'') (drop 2 url1),
                   dropWhile (\<lambda>x. x \<notin> set ''/?#'') (drop 2 url1))
             else ([], url1));
          (url3, fragment) =
            (if CHR ''#'' \<in> set url2 then split_once CHR ''#'' url2 else (url2, []));
          (url4, query) =
            (if CHR ''?'' \<in> set url3 then split_once CHR ''?'' url3 else (url3, []))
      in \<lparr>sr_scheme = scheme, sr_netloc = netloc, sr_path = url4, sr_query = query,
          sr_fragment = fragment\<rparr>)"

definition py_netloc :: "string \<Rightarrow> string" where
  "py_netloc link = sr_netloc (urlsplit link [])"

text \<open>\<^verbatim>\<open>_splitparams\<close>, called when the path holds a semicolon: the parameters start at
  the first semicolon of the last path segment.\<close>

definition splitparams :: "string \<Rightarrow> string \<times> string" where
  "splitparams url =
     (let seg = rev (takeWhile (\<lambda>x. x \<noteq> CHR ''/'') (rev url));
          dir = take (length url - length seg) url
      in if CHR '';'' \<in> set seg
         then (dir @ fst (split_once CHR '';'' seg), snd (split_once CHR '';'' seg))
         else (url, []))"

definition urlunsplit :: "string \<Rightarrow> string \<Rightarrow> string \<Rightarrow> string \<Rightarrow> string \<Rightarrow> string" where
  "urlunsplit scheme netloc url0 query fragment =
     (let url1 =
            (if netloc \<noteq> [] \<or> (scheme \<noteq> [] \<and> scheme \<in> set uses_netloc \<and> take 2 url0 \<noteq> ''//'')
             then ''//'' @ netloc @ (if url0 \<noteq> [] \<and> take 1 url0 \<noteq> ''/'' then CHR ''/'' # url0 else url0)
             else url0);
          url2 = (if scheme \<noteq> [] then scheme @ CHR '':'' # url1 else url1);
          url3 = (if query \<noteq> [] then url2 @ CHR ''?'' # query else url2)
      in if fragment \<noteq> [] then url3 @ CHR ''#'' # fragment else url3)"

definition urlunparse :: "string \<Rightarrow> string \<Rightarrow> string \<Rightarrow> string \<Rightarrow> string \<Rightarrow> string \<Rightarrow> string" where
  "urlunparse scheme netloc url params query fragment =
     urlunsplit scheme netloc (if params \<noteq> [] then url @ CHR '';'' # params else url) query fragment"

text \<open>The loop of \<^verbatim>\<open>urljoin\<close> over the path segments.\<close>

fun resolve_segments :: "string list \<Rightarrow> string list \<Rightarrow> string list" where
  "resolve_segments acc [] = acc"
| "resolve_segments acc (seg # segs) =
     (if seg = ''..'' then resolve_segments (butlast acc) segs
      else if seg = ''.'' then resolve_segments acc segs
      else resolve_segments (acc @ [seg]) segs)"

definition py_urljoin :: "string \<Rightarrow> string \<Rightarrow> string" where
  "py_urljoin base url =
     (if base = [] then url
      else if url = [] then base
      else
        let b = urlsplit base [];
            (bpath, bparams) =
               (if sr_scheme b \<in> set uses_params \<and> CHR '';'' \<in> set (sr_path b)
                then splitparams (sr_path b) else (sr_path b, []));
            u = urlsplit url (sr_scheme b);
            (path, params) =
               (if sr_scheme u \<in> set uses_params \<and> CHR '';'' \<in> set (sr_path u)
                then splitparams (sr_path u) else (sr_path u, []))
        in if sr_scheme u \<noteq> sr_scheme b \<or> sr_scheme u \<notin> set uses_relative then url
           else if sr_scheme u \<in> set uses_netloc \<and> sr_netloc u \<noteq> []
           then urlunparse (sr_scheme u) (sr_netloc u) path params (sr_query u) (sr_fragment u)
           else
             let netloc = (if sr_scheme u \<in> set uses_netloc then sr_netloc b else sr_netloc u)
             in if path = [] \<and> params = []
                then urlunparse (sr_scheme u) netloc bpath bparams
                       (if sr_query u = [] then sr_query b else sr_query u) (sr_fragment u)
                else
                  let base_parts = split_on CHR ''/'' bpath;
                      base_parts' = (if last base_parts \<noteq> [] then butlast base_parts else base_parts);
                      segments =
                        (if take 1 path = ''/'' then split_on CHR ''/'' path
                         else let sg = base_parts' @ split_on CHR ''/'' path
                              in take 1 sg @ filter (\<lambda>w. w \<noteq> []) (butlast (drop 1 sg))
                                 @ (if length sg \<ge> 2 then [last sg] else []));
                      resolved = resolve_segments [] segments;
                      resolved' = (if last segments \<in> set [''.'', ''..''] then resolved @ [[]] else resolved);
                      joined = join_with CHR ''/'' resolved'
                  in urlunparse (sr_scheme u) netloc (if joined = [] then ''/'' else joined)
                       params (sr_query u) (sr_fragment u))"

definition py_urllib :: urllib where
  "py_urllib = \<lparr>urlparse_netloc = py_netloc, urljoin = py_urljoin\<rparr>"


section \<open>The page in the browser\<close>

text \<open>
  \<^verbatim>\<open>render_page\<close> drives a browser through Selenium. The page it loads is a tree of
  elements; the model keeps the tag name and the class tokens of each element. A
  \<^verbatim>\<open>WebElement\<close> is a handle on one element of that tree: the model uses the path from
  the document element (the list of child positions). The scripts only write inline
  style properties, so the tree never changes and the inline styles are a store indexed
  by paths.

  What the layout engine computes (\<^verbatim>\<open>offsetWidth\<close>, \<^verbatim>\<open>offsetHeight\<close>, the computed
  \<^verbatim>\<open>visibility\<close>, and the \<^verbatim>\<open>size\<close> that Selenium reports) is a parameter: a function of
  the current page and the element. Every theorem about \<^verbatim>\<open>render_page\<close> holds for any
  such functions. The sizes are numbers that the code compares with zero and copies into
  the manifest; the model takes them as integers.
\<close>

datatype elem = Elem string "string list" "elem list"

type_synonym path = "nat list"

record style =
  st_visibility :: string
  st_display :: string
  st_maxWidth :: string
  st_maxHeight :: string
  st_transform :: string
  st_transformOrigin :: string

record page =
  pg_root :: elem
  pg_styles :: "path \<Rightarrow> style"

record browser =
  offsetWidth :: "page \<Rightarrow> path \<Rightarrow> int"
  offsetHeight :: "page \<Rightarrow> path \<Rightarrow> int"
  computed_visibility :: "page \<Rightarrow> path \<Rightarrow> string"
  size_width :: "page \<Rightarrow> path \<Rightarrow> int"
  size_height :: "page \<Rightarrow> path \<Rightarrow> int"

definition XRL_CLASSES :: "string list" where
  "XRL_CLASSES = [''XRL-main'', ''XRL-head'', ''XRL-below'', ''XRL-right'', ''XRL-left'',
     ''XRL-ignore'', ''XRL-element'']"

fun elem_tag :: "elem \<Rightarrow> string" where
  "elem_tag (Elem t cls ks) = t"

fun elem_classes :: "elem \<Rightarrow> string list" where
  "elem_classes (Elem t cls ks) = cls"

fun elem_children :: "elem \<Rightarrow> elem list" where
  "elem_children (Elem t cls ks) = ks"

text \<open>The elements below a path, in document order, each with its own path.\<close>

fun walk :: "path \<Rightarrow> nat \<Rightarrow> elem list \<Rightarrow> (path \<times> elem) list" where
  "walk p i [] = []"
| "walk p i (Elem t cls ks # es) =
     (p @ [i], Elem t cls ks) # walk (p @ [i]) 0 ks @ walk p (Suc i) es"

definition all_elements :: "page \<Rightarrow> (path \<times> elem) list" where
  "all_elements pg = ([], pg_root pg) # walk [] 0 (elem_children (pg_root pg))"

definition proper_prefix :: "path \<Rightarrow> path \<Rightarrow> bool" where
  "proper_prefix p q = (length p < length q \<and> take (length p) q = p)"

text \<open>\<^verbatim>\<open>find_elements(By.CLASS_NAME, c)\<close> on the driver, and \<^verbatim>\<open>querySelectorAll\<close> with
  a list of class selectors on the document.\<close>

definition find_by_class :: "page \<Rightarrow> string \<Rightarrow> path list" where
  "find_by_class pg c = map fst (filter (\<lambda>(q, e). c \<in> set (elem_classes e)) (all_elements pg))"

definition find_by_classes :: "page \<Rightarrow> string list \<Rightarrow> path list" where
  "find_by_classes pg cs =
     map fst (filter (\<lambda>(q, e). \<exists>c \<in> set cs. c \<in> set (elem_classes e)) (all_elements pg))"

definition find_by_tag :: "page \<Rightarrow> string \<Rightarrow> path list" where
  "find_by_tag pg t = map fst (filter (\<lambda>(q, e). elem_tag e = t) (all_elements pg))"

definition upd_style :: "(style \<Rightarrow> style) \<Rightarrow> page \<Rightarrow> path \<Rightarrow> page" where
  "upd_style f pg q = pg\<lparr>pg_styles := (pg_styles pg)(q := f (pg_styles pg q))\<rparr>"

subsection \<open>Isolation\<close>

text \<open>
  \<^verbatim>\<open>hide_other_elements\<close>. The XPath is evaluated at the element: \<^verbatim>\<open>.//*[...]\<close> selects
  its descendants and \<^verbatim>\<open>./ancestor::*[...]\<close> its ancestors, the element itself is in
  neither. The first script sets \<^verbatim>\<open>visibility\<close>; its second assignment reads the
  property \<^verbatim>\<open>style.diplay\<close>, which no style object has, so the comparison with
  \<^verbatim>\<open>'none'\<close> is false and \<^verbatim>\<open>display\<close> is assigned its own value. The CSS selector of
  the second search is evaluated at the element too: it selects descendants of the
  element.
\<close>

definition excluded :: "elem \<Rightarrow> bool" where
  "excluded e = (elem_tag e \<in> set [''script'', ''style'', ''head'', ''meta''])"

definition elements_to_show :: "page \<Rightarrow> path \<Rightarrow> path list" where
  "elements_to_show pg p =
     map fst (filter (\<lambda>(q, e). (proper_prefix q p \<or> proper_prefix p q) \<and> \<not> excluded e)
                (all_elements pg))"

definition show_style :: "style \<Rightarrow> style" where
  "show_style st = st\<lparr>st_visibility := ''visible'', st_display := st_display st\<rparr>"

definition elements_to_hide :: "page \<Rightarrow> path \<Rightarrow> path list" where
  "elements_to_hide pg p =
     map fst (filter (\<lambda>(q, e). proper_prefix p q \<and> (\<exists>c \<in> set XRL_CLASSES. c \<in> set (elem_classes e)))
                (all_elements pg))"

definition hide_style :: "style \<Rightarrow> style" where
  "hide_style st = st\<lparr>st_visibility := ''hidden'', st_display := ''none''\<rparr>"

definition hide_other_elements :: "page \<Rightarrow> path \<Rightarrow> page" where
  "hide_other_elements pg p =
     (let pg1 = foldl (upd_style show_style) pg (elements_to_show pg p)
      in foldl (upd_style hide_style) pg1 (elements_to_hide pg1 p))"

subsection \<open>Visibility Resolver\<close>

text \<open>The script of lines 393 to 425. \<^verbatim>\<open>document.body\<close> is the first \<^verbatim>\<open>body\<close> or
  \<^verbatim>\<open>frameset\<close> child of the \<^verbatim>\<open>html\<close> element; when there is none the first statement
  throws.\<close>

definition document_body :: "page \<Rightarrow> path option" where
  "document_body pg =
     (if elem_tag (pg_root pg) = ''html'' then
        (case filter (\<lambda>(q, e). elem_tag e \<in> set [''body'', ''frameset''])
                (map (\<lambda>i. ([i], elem_children (pg_root pg) ! i))
                     [0..<length (elem_children (pg_root pg))]) of
           [] \<Rightarrow> None
         | (q, e) # r \<Rightarrow> Some q)
      else None)"

definition ineffective :: "browser \<Rightarrow> page \<Rightarrow> path \<Rightarrow> bool" where
  "ineffective B pg q =
     (offsetWidth B pg q = 0 \<or> offsetHeight B pg q = 0 \<or> computed_visibility B pg q = ''hidden'')"

text \<open>The chain of \<^verbatim>\<open>parentElement\<close>, nearest first.\<close>

definition ancestors :: "path \<Rightarrow> path list" where
  "ancestors p = map (\<lambda>k. take k p) (rev [0..<length p])"

definition add_parent :: "browser \<Rightarrow> page \<Rightarrow> path list \<Rightarrow> path \<Rightarrow> path list" where
  "add_parent B pg acc q = (if q \<notin> set acc \<and> ineffective B pg q then acc @ [q] else acc)"

definition collect :: "browser \<Rightarrow> page \<Rightarrow> path list \<Rightarrow> path \<Rightarrow> path list" where
  "collect B pg acc p =
     (if ineffective B pg p then
        (let acc1 = foldl (add_parent B pg) acc (ancestors p)
         in if p \<notin> set acc1 then acc1 @ [p] else acc1)
      else acc)"

definition force_style :: "style \<Rightarrow> style" where
  "force_style st = st\<lparr>st_display := ''flex'', st_visibility := ''visible''\<rparr>"

definition resolve_page :: "browser \<Rightarrow> page \<Rightarrow> path \<Rightarrow> page" where
  "resolve_page B pg b =
     (let pg1 = upd_style (\<lambda>st. st\<lparr>st_transform := ''scale(1)'', st_transformOrigin := ''0 0''\<rparr>) pg b;
          pg2 = foldl (upd_style (\<lambda>st. st\<lparr>st_maxWidth := ''none''\<rparr>)) pg1
                  (find_by_class pg1 ''XRL-container'');
          elementsToUpdate = foldl (collect B pg2) []
                  (find_by_classes pg2 [''XRL-head'', ''XRL-left'', ''XRL-right'', ''XRL-main'', ''XRL-below''])
      in foldl (upd_style force_style) pg2 elementsToUpdate)"

definition resolve_visibility :: "browser \<Rightarrow> page \<Rightarrow> error + page" where
  "resolve_visibility B pg =
     (case document_body pg of
        None \<Rightarrow> Inl JavascriptException
      | Some b \<Rightarrow> Inr (resolve_page B pg b))"

text \<open>Lines 428 to 430.\<close>

definition unconstrain_containers :: "page \<Rightarrow> page" where
  "unconstrain_containers pg =
     foldl (upd_style (\<lambda>st. st\<lparr>st_maxWidth := ''none'', st_maxHeight := ''none''\<rparr>)) pg
       (find_by_class pg ''XRL-container'')"

subsection \<open>Zone Snapshotter\<close>

record image =
  im_url :: string
  im_width :: int
  im_height :: int

record manifest =
  full_page :: image
  zones :: "(string \<times> image list) list"

text \<open>The driver as \<^verbatim>\<open>render_page\<close> changes it: the page, and the files that the
  screenshots have written, oldest first.\<close>

record driver =
  dr_page :: page
  dr_files :: "string list"

text \<open>\<^verbatim>\<open>str(i)\<close> for the index of \<^verbatim>\<open>enumerate\<close>.\<close>

fun str_nat :: "nat \<Rightarrow> string" where
  "str_nat n = (if n < 10 then [char_of (48 + n)] else str_nat (n div 10) @ [char_of (48 + n mod 10)])"

declare str_nat.simps [simp del]

definition image_file :: "string \<Rightarrow> nat \<Rightarrow> string" where
  "image_file key i = ''images/'' @ key @ ''-'' @ str_nat i @ ''.png''"

definition image_entry :: "browser \<Rightarrow> string \<Rightarrow> string \<Rightarrow> nat \<Rightarrow> page \<Rightarrow> path \<Rightarrow> image" where
  "image_entry B base_url key i pg e =
     \<lparr>im_url = base_url @ ''/'' @ image_file key i,
      im_width = size_width B pg e, im_height = size_height B pg e\<rparr>"

text \<open>The inner loop of lines 462 to 475, from position \<open>i\<close> on; \<open>acc\<close> is
  \<^verbatim>\<open>image_data[key]\<close>.\<close>

fun capture_zone ::
  "browser \<Rightarrow> string \<Rightarrow> string \<Rightarrow> nat \<Rightarrow> path list \<Rightarrow> image list \<Rightarrow> driver \<Rightarrow> image list \<times> driver" where
  "capture_zone B base_url key i [] acc dr = (acc, dr)"
| "capture_zone B base_url key i (e # es) acc dr =
     (let pg = hide_other_elements (dr_page dr) e in
      if size_width B pg e \<noteq> 0 \<and> size_height B pg e \<noteq> 0
      then capture_zone B base_url key (Suc i) es (acc @ [image_entry B base_url key i pg e])
             \<lparr>dr_page = pg, dr_files = dr_files dr @ [image_file key i]\<rparr>
      else capture_zone B base_url key (Suc i) es acc \<lparr>dr_page = pg, dr_files = dr_files dr\<rparr>)"

text \<open>The outer loop of line 457 over the items of \<^verbatim>\<open>data\<close>.\<close>

fun capture_all ::
  "browser \<Rightarrow> string \<Rightarrow> (string \<times> path list) list \<Rightarrow> driver \<Rightarrow> (string \<times> image list) list \<times> driver" where
  "capture_all B base_url [] dr = ([], dr)"
| "capture_all B base_url ((key, els) # rest) dr =
     (let (ims, dr1) = capture_zone B base_url key 0 els [] dr;
          (zs, dr2) = capture_all B base_url rest dr1
      in ((key, ims) # zs, dr2))"

text \<open>Lines 432 to 440: the dict \<^verbatim>\<open>data\<close>, in insertion order.\<close>

definition zone_elements :: "page \<Rightarrow> (string \<times> path list) list" where
  "zone_elements pg =
     (let main_list = find_by_class pg ''XRL-main'' in
      [(''XRL_head'', find_by_class pg ''XRL-head''),
       (''XRL_left'', find_by_class pg ''XRL-left''),
       (''XRL_right'', find_by_class pg ''XRL-right''),
       (''XRL_main'', take 1 main_list),
       (''XRL_below'', drop 1 main_list @ find_by_class pg ''XRL-below'')])"

text \<open>\<^verbatim>\<open>render_page\<close> from line 392 on, on the page that \<^verbatim>\<open>DRIVER.get(url)\<close> has
  loaded.\<close>

definition render_page :: "browser \<Rightarrow> string \<Rightarrow> driver \<Rightarrow> error + manifest \<times> driver" where
  "render_page B base_url dr =
     (case resolve_visibility B (dr_page dr) of
        Inl err \<Rightarrow> Inl err
      | Inr pg1 \<Rightarrow>
          let pg2 = unconstrain_containers pg1;
              data = zone_elements pg2
          in (case find_by_tag pg2 ''body'' of
               [] \<Rightarrow> Inl NoSuchElementException
             | fp # r \<Rightarrow>
                 let dr1 = \<lparr>dr_page = pg2, dr_files = dr_files dr @ [''images/full_page.png'']\<rparr>;
                     full = \<lparr>im_url = base_url @ ''/images/full_page.png'',
                             im_width = size_width B pg2 fp, im_height = size_height B pg2 fp\<rparr>;
                     (zs, dr2) = capture_all B base_url data dr1
                 in Inr (\<lparr>full_page = full, zones = zs\<rparr>, dr2)))"

section \<open>Notions used to state the properties\<close>

text \<open>What a node is without its children, and the nodes of a forest in document
  order.\<close>

datatype label = LTag tag | LStr ident string

fun nodes_of :: "node list \<Rightarrow> label list" where
  "nodes_of [] = []"
| "nodes_of (NavStr i s # ns) = LStr i s # nodes_of ns"
| "nodes_of (Tag d cs # ns) = LTag d # nodes_of cs @ nodes_of ns"

definition lid :: "label \<Rightarrow> ident" where
  "lid l = (case l of LTag d \<Rightarrow> nid d | LStr i s \<Rightarrow> i)"



definition marked :: "string \<Rightarrow> label \<Rightarrow> bool" where
  "marked c l = (case l of LTag d \<Rightarrow> c \<in> set (classes d) | LStr i s \<Rightarrow> False)"

text \<open>The entries of a list of nodes, without their subtrees.\<close>

definition roots :: "node list \<Rightarrow> label list" where
  "roots ns = map (\<lambda>x. case x of Tag d cs \<Rightarrow> LTag d | NavStr i s \<Rightarrow> LStr i s) ns"

text \<open>A forest without the subtrees whose root satisfies \<open>P\<close>, and the nodes of those
  subtrees.\<close>

fun prune :: "(node \<Rightarrow> bool) \<Rightarrow> node list \<Rightarrow> node list" where
  "prune P [] = []"
| "prune P (NavStr i s # ns) = NavStr i s # prune P ns"
| "prune P (Tag d cs # ns) =
     (if P (Tag d cs) then prune P ns else Tag d (prune P cs) # prune P ns)"


text \<open>A search criterion that looks at the tag only, not at what is below it.\<close>

definition shallow :: "(node \<Rightarrow> bool) \<Rightarrow> bool" where
  "shallow P = (\<forall>d cs cs'. P (Tag d cs) = P (Tag d cs'))"





definition legacy_tag :: tag where
  "legacy_tag = new_tag ''legacy'' ''div'' [''XRL-below''] [(''id'', ''XRL-computed-legacy'')]"



text \<open>The forest in which each zone is searched.\<close>

definition before_main :: "node list \<Rightarrow> node list" where
  "before_main s =
     prune (has_class ''XRL-right'') (prune (has_class ''XRL-left'')
       (prune (has_class ''XRL-head'') (prune (has_class ''XRL-ignore'') s)))"

text \<open>The page on which the element at position \<open>k\<close> of a zone is measured: the
  isolation has run for the elements up to and including position \<open>k\<close>. The positions
  of a zone whose element has a nonzero width and a nonzero height at that moment.\<close>

definition isolated :: "page \<Rightarrow> path list \<Rightarrow> nat \<Rightarrow> page" where
  "isolated pg es k = foldl hide_other_elements pg (take (Suc k) es)"

definition captured :: "browser \<Rightarrow> page \<Rightarrow> path list \<Rightarrow> nat list" where
  "captured B pg es =
     filter (\<lambda>k. size_width B (isolated pg es k) (es ! k) \<noteq> 0
                \<and> size_height B (isolated pg es k) (es ! k) \<noteq> 0) [0..<length es]"

text \<open>The manifest list of a zone whose loop starts on the page \<open>pg\<close>, and the files
  it writes.\<close>

definition zone_images :: "browser \<Rightarrow> string \<Rightarrow> string \<Rightarrow> page \<Rightarrow> path list \<Rightarrow> image list" where
  "zone_images B base_url key pg es =
     map (\<lambda>k. image_entry B base_url key k (isolated pg es k) (es ! k)) (captured B pg es)"

definition zone_files :: "browser \<Rightarrow> string \<Rightarrow> page \<Rightarrow> path list \<Rightarrow> string list" where
  "zone_files B key pg es = map (image_file key) (captured B pg es)"


text \<open>The page when the loops start: after the script of lines 393 to 425 and the loop
  of lines 428 to 430.\<close>

definition snapshot_page :: "browser \<Rightarrow> page \<Rightarrow> path \<Rightarrow> page" where
  "snapshot_page B pg b = unconstrain_containers (resolve_page B pg b)"

subsection \<open>Example pages\<close>

text \<open>A layout for the examples: an element with the inline style \<open>display: none\<close> has
  no box, one with \<open>max-width: 0\<close> has no width, every other element is 100 by 50; the
  computed visibility is the inline one.\<close>

definition box_browser :: browser where
  "box_browser =
     \<lparr>offsetWidth = (\<lambda>pg q. if st_display (pg_styles pg q) = ''none''
                                \<or> st_maxWidth (pg_styles pg q) = ''0'' then 0 else 100),
      offsetHeight = (\<lambda>pg q. if st_display (pg_styles pg q) = ''none'' then 0 else 50),
      computed_visibility = (\<lambda>pg q. st_visibility (pg_styles pg q)),
      size_width = (\<lambda>pg q. if st_display (pg_styles pg q) = ''none''
                               \<or> st_maxWidth (pg_styles pg q) = ''0'' then 0 else 100),
      size_height = (\<lambda>pg q. if st_display (pg_styles pg q) = ''none'' then 0 else 50)\<rparr>"

definition blank_style :: style where
  "blank_style = \<lparr>st_visibility = [], st_display = [], st_maxWidth = [], st_maxHeight = [],
     st_transform = [], st_transformOrigin = []\<rparr>"

text \<open>Two left elements side by side.\<close>

definition page_two_left :: page where
  "page_two_left =
     \<lparr>pg_root = Elem ''html'' []
        [Elem ''head'' [] [],
         Elem ''body'' [] [Elem ''div'' [''XRL-left''] [], Elem ''div'' [''XRL-left''] []]],
      pg_styles = (\<lambda>q. blank_style)\<rparr>"

text \<open>A head element inside a head element.\<close>

definition page_nested_head :: page where
  "page_nested_head =
     \<lparr>pg_root = Elem ''html'' []
        [Elem ''head'' [] [],
         Elem ''body'' [] [Elem ''div'' [''XRL-head''] [Elem ''span'' [''XRL-head''] []]]],
      pg_styles = (\<lambda>q. blank_style)\<rparr>"

text \<open>Four left elements; the first and the third have the inline style
  \<open>max-width: 0\<close>.\<close>

definition page_gaps :: page where
  "page_gaps =
     \<lparr>pg_root = Elem ''html'' []
        [Elem ''head'' [] [],
         Elem ''body'' []
           [Elem ''div'' [''XRL-left''] [], Elem ''div'' [''XRL-left''] [],
            Elem ''div'' [''XRL-left''] [], Elem ''div'' [''XRL-left''] []]],
      pg_styles = (\<lambda>q. if q = [1, 0] \<or> q = [1, 2] then blank_style\<lparr>st_maxWidth := ''0''\<rparr>
                         else blank_style)\<rparr>"

text \<open>A left element inside a container, both with the inline style
  \<open>display: none\<close>.\<close>

definition page_hidden :: page where
  "page_hidden =
     \<lparr>pg_root = Elem ''html'' []
        [Elem ''head'' [] [],
         Elem ''body'' [] [Elem ''div'' [''XRL-container''] [Elem ''div'' [''XRL-left''] []]]],
      pg_styles = (\<lambda>q. if q = [1, 0] \<or> q = [1, 0, 0] then blank_style\<lparr>st_display := ''none''\<rparr>
                         else blank_style)\<rparr>"

subsection \<open>Example documents\<close>

definition tg :: "nat \<Rightarrow> string \<Rightarrow> string list \<Rightarrow> node list \<Rightarrow> node" where
  "tg i n cls cs = Tag \<lparr>nid = Parsed i, name = n, classes = cls, rel = None, attrs = []\<rparr> cs"

text \<open>\<^verbatim>\<open><html><body><p>hello</p></body></html>\<close>\<close>

definition doc_no_title :: "node list" where
  "doc_no_title =
     [tg 1 ''html'' [] [tg 2 ''body'' [] [tg 3 ''p'' [] [NavStr (Parsed 4) ''hello'']]]]"

text \<open>\<^verbatim>\<open><html><head><title>Foo</title></head><body><p>hello</p></body></html>\<close>\<close>

definition doc_foo :: "node list" where
  "doc_foo =
     [tg 1 ''html'' []
        [tg 2 ''head'' [] [tg 3 ''title'' [] [NavStr (Parsed 4) ''Foo'']],
         tg 5 ''body'' [] [tg 6 ''p'' [] [NavStr (Parsed 7) ''hello'']]]]"


text \<open>A page with a stylesheet and a script, one main element, two below elements (an
  ignored element inside the first), and content that carries no marker.\<close>

definition doc_scenario :: "node list" where
  "doc_scenario =
     [tg 1 ''html'' []
        [tg 2 ''head'' []
           [tg 3 ''title'' [] [NavStr (Parsed 4) ''Foo''],
            Tag \<lparr>nid = Parsed 5, name = ''link'', classes = [], rel = Some [''stylesheet''],
                 attrs = [(''href'', ''s.css'')]\<rparr> []],
         tg 6 ''body'' []
           [tg 7 ''div'' [''XRL-main''] [NavStr (Parsed 8) ''m''],
            tg 9 ''div'' [''XRL-below'']
              [tg 10 ''span'' [''XRL-ignore''] [NavStr (Parsed 11) ''secret''],
               NavStr (Parsed 12) ''b1''],
            tg 13 ''div'' [''XRL-below''] [NavStr (Parsed 14) ''b2''],
            tg 15 ''p'' [] [NavStr (Parsed 16) ''other''],
            Tag \<lparr>nid = Parsed 17, name = ''script'', classes = [], rel = None,
                 attrs = [(''src'', ''/j.js'')]\<rparr> []]]]"

text \<open>The same page after lines 523 to 542, for the URL \<open>x.com/p/q\<close>.\<close>

definition doc_scenario_prepared :: "node list" where
  "doc_scenario_prepared =
     [tg 1 ''html'' []
        [tg 2 ''head'' []
           [Tag (new_tag ''base'' ''base'' [] [(''href'', ''http://x.com/p/q'')]) [],
            tg 3 ''title'' [] [NavStr (Created ''title-string'') ''XRL View - Foo''],
            Tag \<lparr>nid = Parsed 5, name = ''link'', classes = [], rel = Some [''stylesheet''],
                 attrs = [(''href'', ''http://x.com/p/s.css'')]\<rparr> []],
         tg 6 ''body'' []
           [tg 7 ''div'' [''XRL-main''] [NavStr (Parsed 8) ''m''],
            tg 9 ''div'' [''XRL-below'']
              [tg 10 ''span'' [''XRL-ignore''] [NavStr (Parsed 11) ''secret''],
               NavStr (Parsed 12) ''b1''],
            tg 13 ''div'' [''XRL-below''] [NavStr (Parsed 14) ''b2''],
            tg 15 ''p'' [] [NavStr (Parsed 16) ''other''],
            Tag \<lparr>nid = Parsed 17, name = ''script'', classes = [], rel = None,
                 attrs = [(''src'', ''http://x.com/j.js'')]\<rparr> []]]]"

text \<open>A main element inside a head-zone element, followed by a second main element.\<close>

definition doc_nested_main :: "node list" where
  "doc_nested_main =
     [tg 1 ''title'' [] [NavStr (Parsed 2) ''T''],
      tg 3 ''div'' [''XRL-head''] [tg 4 ''span'' [''XRL-main''] []],
      tg 5 ''div'' [''XRL-main''] []]"



section \<open>Title rule\<close>

text \<open>
  Claim C3. A document with a title element gets the title text \<open>XRL View - \<close> followed
  by the old text: the document with the title \<open>Foo\<close> gets \<open>XRL View - Foo\<close>. A
  document without a title element should get the title \<open>XRL View\<close>; instead the
  assignment of line 529 raises \<^verbatim>\<open>AttributeError\<close> and \<^verbatim>\<open>render_xrl\<close> returns nothing,
  whatever the URL and the library functions are.
\<close>

theorem title_rule_missing_title:
  "set_title doc_foo =
     Inr [tg 1 ''html'' []
            [tg 2 ''head'' [] [tg 3 ''title'' [] [NavStr (Created ''title-string'') ''XRL View - Foo'']],
             tg 5 ''body'' [] [tg 6 ''p'' [] [NavStr (Parsed 7) ''hello'']]]]
   \<and> render_xrl L A u doc_no_title = Inl AttributeError"
  by (simp add: render_xrl_def prepare_def set_title_def doc_foo_def doc_no_title_def tg_def
      has_name_def set_string_def py_format_def)



section \<open>Facts about searching and detaching\<close>


lemma extract_all_snd: "snd (extract_all P ns) = prune P ns"
  by (induction ns rule: nodes_of.induct) (simp_all add: split_def Let_def)




lemma shallow_has_class: "shallow (has_class c)"
  by (simp add: shallow_def has_class_def)


lemma extract_all_roots:
  "shallow P \<Longrightarrow>
   roots (fst (extract_all P ns))
   = filter (\<lambda>l. case l of LTag d \<Rightarrow> P (Tag d []) | LStr i s \<Rightarrow> False) (nodes_of ns)"
proof (induction ns rule: nodes_of.induct)
  case (3 d cs ns)
  from 3 have "P (Tag d cs) = P (Tag d [])"
    by (simp add: shallow_def)
  with 3 show ?case
    by (simp add: split_def Let_def roots_def)
qed (simp_all add: split_def roots_def Let_def)

lemma extract_class_roots:
  "roots (fst (extract_all (has_class c) ns)) = filter (marked c) (nodes_of ns)"
proof -
  have "(\<lambda>l. case l of LTag d \<Rightarrow> has_class c (Tag d []) | LStr i s \<Rightarrow> False) = marked c"
    by (auto simp: fun_eq_iff marked_def has_class_def split: label.splits)
  with extract_all_roots [OF shallow_has_class, of c ns] show ?thesis
    by simp
qed






section \<open>Facts about the classifier\<close>

lemma extract_zones_unfold:
  "extract_zones s =
     \<lparr>ex_ignore = fst (extract_all (has_class ''XRL-ignore'') s),
      ex_head = fst (extract_all (has_class ''XRL-head'') (prune (has_class ''XRL-ignore'') s)),
      ex_left = fst (extract_all (has_class ''XRL-left'')
                  (prune (has_class ''XRL-head'') (prune (has_class ''XRL-ignore'') s))),
      ex_right = fst (extract_all (has_class ''XRL-right'') (prune (has_class ''XRL-left'')
                  (prune (has_class ''XRL-head'') (prune (has_class ''XRL-ignore'') s)))),
      ex_main = fst (extract_all (has_class ''XRL-main'') (before_main s)),
      ex_below = fst (extract_all (has_class ''XRL-below'') (prune (has_class ''XRL-main'') (before_main s))),
      ex_rest = prune (has_class ''XRL-below'') (prune (has_class ''XRL-main'') (before_main s))\<rparr>"
  by (simp add: extract_zones_def split_def Let_def extract_all_snd before_main_def)





lemma classify_unfold:
  "classify A s =
     \<lparr>xrl_main = take 1 (ex_main (extract_zones s)),
      xrl_head = ex_head (extract_zones s),
      xrl_below = drop 1 (ex_main (extract_zones s)) @ ex_below (extract_zones s)
                    @ [legacy_content A (ex_rest (extract_zones s))
                         (sp_rest (extract_supporting (soup_after_append A (ex_rest (extract_zones s)))))],
      xrl_right = ex_right (extract_zones s),
      xrl_left = ex_left (extract_zones s),
      head_list = sp_head (extract_supporting (soup_after_append A (ex_rest (extract_zones s)))),
      footer_list = sp_footer (extract_supporting (soup_after_append A (ex_rest (extract_zones s)))),
      style_list = sp_style (extract_supporting (soup_after_append A (ex_rest (extract_zones s)))),
      script_list = sp_script (extract_supporting (soup_after_append A (ex_rest (extract_zones s))))\<rparr>"
  by (simp add: classify_def Let_def)



lemma render_xrl_prepared: "prepare L u doc = Inr s \<Longrightarrow> render_xrl L A u doc = Inr (classify A s)"
  by (simp add: render_xrl_def)

subsection \<open>Identities after the preparation\<close>














section \<open>Partition completeness\<close>




section \<open>Main cardinality\<close>

text \<open>
  Claim C2, as amended. Let \<open>M\<close> be the main-marked elements, in document order, of the
  document from which the ignore, head, left and right extractions have removed their
  subtrees (a main-marked element inside one of those is not in \<open>M\<close>). The main list
  has at most one entry, the first of \<open>M\<close>; the below list starts with the remaining
  entries of \<open>M\<close> in their order, then holds the below-marked elements that are left
  once the main extraction is done, then the legacy wrapper. The render path splits the
  elements with the main class in the same way.
\<close>

theorem main_cardinality:
  assumes "prepare L u doc = Inr s"
  shows "render_xrl L A u doc = Inr (classify A s)
    \<and> length (xrl_main (classify A s)) \<le> 1
    \<and> roots (xrl_main (classify A s)) = take 1 (filter (marked ''XRL-main'') (nodes_of (before_main s)))
    \<and> roots (xrl_below (classify A s))
        = drop 1 (filter (marked ''XRL-main'') (nodes_of (before_main s)))
          @ filter (marked ''XRL-below'') (nodes_of (prune (has_class ''XRL-main'') (before_main s)))
          @ [LTag legacy_tag]
    \<and> map_of (zone_elements pg) ''XRL_main'' = Some (take 1 (find_by_class pg ''XRL-main''))
    \<and> map_of (zone_elements pg) ''XRL_below''
        = Some (drop 1 (find_by_class pg ''XRL-main'') @ find_by_class pg ''XRL-below'')"
proof -
  have m: "roots (ex_main (extract_zones s)) = filter (marked ''XRL-main'') (nodes_of (before_main s))"
    by (simp add: extract_zones_unfold extract_class_roots)
  have b: "roots (ex_below (extract_zones s))
        = filter (marked ''XRL-below'') (nodes_of (prune (has_class ''XRL-main'') (before_main s)))"
    by (simp add: extract_zones_unfold extract_class_roots)
  have t: "roots (take n xs) = take n (roots xs)" and d: "roots (drop n xs) = drop n (roots xs)"
    and a: "roots (xs @ ys) = roots xs @ roots ys" for n xs ys
    by (simp_all add: roots_def take_map drop_map)
  have "roots (xrl_main (classify A s)) = take 1 (filter (marked ''XRL-main'') (nodes_of (before_main s)))"
    by (simp only: classify_unfold xrl_result.simps t m)
  moreover have "roots (xrl_below (classify A s))
        = drop 1 (filter (marked ''XRL-main'') (nodes_of (before_main s)))
          @ filter (marked ''XRL-below'') (nodes_of (prune (has_class ''XRL-main'') (before_main s)))
          @ [LTag legacy_tag]"
    by (simp add: classify_unfold a d m b) (simp add: roots_def legacy_content_def legacy_tag_def)
  moreover have "length (xrl_main (classify A s)) \<le> 1"
    by (simp add: classify_unfold)
  moreover have "map_of (zone_elements pg) ''XRL_main'' = Some (take 1 (find_by_class pg ''XRL-main''))"
    and "map_of (zone_elements pg) ''XRL_below''
        = Some (drop 1 (find_by_class pg ''XRL-main'') @ find_by_class pg ''XRL-below'')"
    by (simp_all add: zone_elements_def Let_def)
  ultimately show ?thesis
    using render_xrl_prepared [OF assms, of A] by blast
qed

theorem main_cardinality_witness:
  "prepare py_urllib ''x.com/p/q'' doc_scenario = Inr doc_scenario_prepared
   \<and> length (xrl_main (classify MovesChildren doc_scenario_prepared)) \<le> 1
   \<and> roots (xrl_main (classify MovesChildren doc_scenario_prepared))
       = take 1 (filter (marked ''XRL-main'') (nodes_of (before_main doc_scenario_prepared)))
   \<and> roots (xrl_below (classify MovesChildren doc_scenario_prepared))
        = drop 1 (filter (marked ''XRL-main'') (nodes_of (before_main doc_scenario_prepared)))
          @ filter (marked ''XRL-below'')
              (nodes_of (prune (has_class ''XRL-main'') (before_main doc_scenario_prepared)))
          @ [LTag legacy_tag]"
proof -
  have p: "prepare py_urllib ''x.com/p/q'' doc_scenario = Inr doc_scenario_prepared"
    by code_simp
  from main_cardinality [OF p, of MovesChildren] p show ?thesis
    by blast
qed

text \<open>Two main-marked elements, the first inside a head element: the main list holds
  the second, and no main-marked element is in the below list.\<close>

theorem main_cardinality_counterexample:
  "map lid (filter (marked ''XRL-main'') (nodes_of doc_nested_main)) = [Parsed 4, Parsed 5]
   \<and> map_sum id (map lid \<circ> roots \<circ> xrl_main) (render_xrl py_urllib NestsSoup ''x.com'' doc_nested_main)
       = Inr [Parsed 5]
   \<and> map_sum id (map lid \<circ> roots \<circ> xrl_below) (render_xrl py_urllib NestsSoup ''x.com'' doc_nested_main)
       = Inr [Created ''legacy'']
   \<and> map_sum id (map lid \<circ> roots \<circ> xrl_main) (render_xrl py_urllib MovesChildren ''x.com'' doc_nested_main)
       = Inr [Parsed 5]
   \<and> map_sum id (map lid \<circ> roots \<circ> xrl_below) (render_xrl py_urllib MovesChildren ''x.com'' doc_nested_main)
       = Inr [Created ''legacy'']"
  by code_simp


section \<open>Ignore invariant\<close>



section \<open>Supporting lists\<close>




section \<open>Link Normalizer\<close>




section \<open>Facts about the page\<close>

lemma upd_style_root: "pg_root (upd_style f pg q) = pg_root pg"
  by (simp add: upd_style_def)

lemma foldl_upd_style_root: "pg_root (foldl (upd_style f) pg qs) = pg_root pg"
  by (induction qs arbitrary: pg) (simp_all add: upd_style_root)

lemma all_elements_root: "pg_root pg = pg_root pg' \<Longrightarrow> all_elements pg = all_elements pg'"
  by (simp add: all_elements_def)

lemma find_by_class_root: "pg_root pg = pg_root pg' \<Longrightarrow> find_by_class pg c = find_by_class pg' c"
  by (simp add: find_by_class_def all_elements_def)

lemma find_by_classes_root: "pg_root pg = pg_root pg' \<Longrightarrow> find_by_classes pg cs = find_by_classes pg' cs"
  by (simp add: find_by_classes_def all_elements_def)


lemma document_body_root: "pg_root pg = pg_root pg' \<Longrightarrow> document_body pg = document_body pg'"
  by (simp add: document_body_def)

lemma hide_other_elements_root: "pg_root (hide_other_elements pg p) = pg_root pg"
  by (simp add: hide_other_elements_def Let_def foldl_upd_style_root)

lemma resolve_page_root: "pg_root (resolve_page B pg b) = pg_root pg"
  by (simp add: resolve_page_def Let_def foldl_upd_style_root upd_style_root)



text \<open>A loop that applies the same change of style to a list of elements.\<close>

lemma upd_style_styles:
  "pg_styles (upd_style f pg a) q = (if q = a then f (pg_styles pg a) else pg_styles pg q)"
  by (simp add: upd_style_def)

lemma foldl_upd_style_styles:
  assumes "\<And>st. f (f st) = f st"
  shows "pg_styles (foldl (upd_style f) pg qs) q
         = (if q \<in> set qs then f (pg_styles pg q) else pg_styles pg q)"
proof (induction qs arbitrary: pg)
  case Nil
  show ?case by simp
next
  case (Cons a qs)
  have "pg_styles (foldl (upd_style f) pg (a # qs)) q
        = pg_styles (foldl (upd_style f) (upd_style f pg a) qs) q"
    by simp
  also have "\<dots> = (if q \<in> set qs then f (pg_styles (upd_style f pg a) q)
                    else pg_styles (upd_style f pg a) q)"
    by (rule Cons.IH)
  also have "\<dots> = (if q \<in> set (a # qs) then f (pg_styles pg q) else pg_styles pg q)"
    by (simp add: upd_style_styles assms)
  finally show ?case .
qed

section \<open>Facts about the snapshot loops\<close>

lemma filter_upt_Suc:
  "filter P [0..<Suc n] = (if P 0 then [0] else []) @ map Suc (filter (\<lambda>k. P (Suc k)) [0..<n])"
proof -
  have "[0..<Suc n] = 0 # map Suc [0..<n]"
    by (simp add: upt_conv_Cons map_Suc_upt del: upt_Suc)
  then show ?thesis
    by (simp add: filter_map comp_def del: upt_Suc)
qed

lemma isolated_Cons_0: "isolated pg (e # es) 0 = hide_other_elements pg e"
  by (simp add: isolated_def)

lemma isolated_Cons_Suc: "isolated pg (e # es) (Suc k) = isolated (hide_other_elements pg e) es k"
  by (simp add: isolated_def)

lemma captured_Cons:
  "captured B pg (e # es) =
     (if size_width B (hide_other_elements pg e) e \<noteq> 0 \<and> size_height B (hide_other_elements pg e) e \<noteq> 0
      then [0] else [])
     @ map Suc (captured B (hide_other_elements pg e) es)"
  unfolding captured_def length_Cons filter_upt_Suc
  by (simp add: isolated_Cons_0 isolated_Cons_Suc)

lemma capture_zone_from:
  "capture_zone B base_url key i es acc dr =
     (acc @ map (\<lambda>k. image_entry B base_url key (i + k) (isolated (dr_page dr) es k) (es ! k))
              (captured B (dr_page dr) es),
      \<lparr>dr_page = foldl hide_other_elements (dr_page dr) es,
       dr_files = dr_files dr @ map (\<lambda>k. image_file key (i + k)) (captured B (dr_page dr) es)\<rparr>)"
proof (induction es arbitrary: i acc dr)
  case Nil
  show ?case
    by (simp add: captured_def)
next
  case (Cons e es)
  show ?case
    by (simp add: Cons.IH captured_Cons Let_def comp_def isolated_Cons_0 isolated_Cons_Suc)
qed

lemma capture_zone_result:
  "capture_zone B base_url key 0 es [] dr =
     (zone_images B base_url key (dr_page dr) es,
      \<lparr>dr_page = foldl hide_other_elements (dr_page dr) es,
       dr_files = dr_files dr @ zone_files B key (dr_page dr) es\<rparr>)"
  by (simp add: capture_zone_from zone_images_def zone_files_def)







section \<open>Zero-size skip\<close>





section \<open>Manifest indices\<close>

lemma str_nat_nonempty: "str_nat n \<noteq> []"
  by (subst str_nat.simps) simp

lemma digit_inj: "a < 10 \<Longrightarrow> b < 10 \<Longrightarrow> char_of (48 + a) = (char_of (48 + b) :: char) \<Longrightarrow> a = (b :: nat)"
proof -
  assume a: "a < 10" and b: "b < 10" and e: "char_of (48 + a) = (char_of (48 + b) :: char)"
  from e have "of_char (char_of (48 + a) :: char) = (of_char (char_of (48 + b) :: char) :: nat)"
    by simp
  then have "(48 + a) mod 256 = (48 + b) mod 256"
    by (simp only: of_char_of)
  with a b show ?thesis
    by simp
qed

lemma str_nat_inj: "str_nat n = str_nat m \<Longrightarrow> n = m"
proof (induction n arbitrary: m rule: less_induct)
  case (less n)
  have sn: "str_nat n = (if n < 10 then [char_of (48 + n)]
                         else str_nat (n div 10) @ [char_of (48 + n mod 10)])"
    by (rule str_nat.simps)
  have sm: "str_nat m = (if m < 10 then [char_of (48 + m)]
                         else str_nat (m div 10) @ [char_of (48 + m mod 10)])"
    by (rule str_nat.simps)
  show ?case
  proof (cases "n < 10")
    case n: True
    show ?thesis
    proof (cases "m < 10")
      case True
      from less.prems n True have "char_of (48 + n) = (char_of (48 + m) :: char)"
        by (simp add: sn sm)
      with n True show ?thesis
        by (rule digit_inj)
    next
      case False
      from less.prems n False have "[char_of (48 + n)] = str_nat (m div 10) @ [char_of (48 + m mod 10)]"
        by (simp add: sn sm)
      then show ?thesis
        using str_nat_nonempty [of "m div 10"] by simp
    qed
  next
    case n: False
    show ?thesis
    proof (cases "m < 10")
      case True
      from less.prems n True have "str_nat (n div 10) @ [char_of (48 + n mod 10)] = [char_of (48 + m)]"
        by (simp add: sn sm)
      then show ?thesis
        using str_nat_nonempty [of "n div 10"] by simp
    next
      case False
      from less.prems n False have "str_nat (n div 10) @ [char_of (48 + n mod 10)]
            = str_nat (m div 10) @ [char_of (48 + m mod 10)]"
        by (simp add: sn sm)
      then have 1: "str_nat (n div 10) = str_nat (m div 10)"
        and 2: "char_of (48 + n mod 10) = (char_of (48 + m mod 10) :: char)"
        by simp_all
      have "n div 10 < n"
        using n by simp
      then have d: "n div 10 = m div 10"
        using 1 by (rule less.IH)
      have "n mod 10 < 10" and "m mod 10 < 10"
        by simp_all
      then have "n mod 10 = m mod 10"
        using 2 by (rule digit_inj)
      then have "10 * (n div 10) + n mod 10 = 10 * (m div 10) + m mod 10"
        using d by simp
      then show ?thesis
        by (simp only: mult_div_mod_eq)
    qed
  qed
qed

lemma image_file_inj: "image_file key i = image_file key j \<Longrightarrow> i = j"
  by (simp add: image_file_def str_nat_inj)

lemma captured_sorted: "sorted_wrt (<) (captured B pg es)"
  unfolding captured_def by (rule sorted_wrt_filter) simp

text \<open>
  Claim C10. The file name and the URL of an entry carry the position of the element in
  the full list of its zone, not the number of entries made so far: the URLs of a zone
  are those of the captured positions, in increasing order, and the loop writes exactly
  the files of these positions, so no file carries the position of a skipped element.
  On the example page with four left elements, of which the first and the third have no
  width, the left zone has the entries 1 and 3: the indices do not start at 0 and are
  not contiguous.
\<close>

theorem manifest_index_gaps:
  "map im_url (fst (capture_zone B base_url key 0 es [] dr))
     = map (\<lambda>k. base_url @ ''/images/'' @ key @ ''-'' @ str_nat k @ ''.png'') (captured B (dr_page dr) es)
   \<and> dr_files (snd (capture_zone B base_url key 0 es [] dr))
     = dr_files dr @ map (\<lambda>k. ''images/'' @ key @ ''-'' @ str_nat k @ ''.png'') (captured B (dr_page dr) es)
   \<and> sorted_wrt (<) (captured B (dr_page dr) es)
   \<and> (k \<notin> set (captured B (dr_page dr) es) \<longrightarrow>
        image_file key k \<notin> set (zone_files B key (dr_page dr) es))
   \<and> map_sum id (zones \<circ> fst)
        (render_page box_browser ''http://h'' \<lparr>dr_page = page_gaps, dr_files = []\<rparr>)
      = Inr [(''XRL_head'', []),
             (''XRL_left'',
                [\<lparr>im_url = ''http://h/images/XRL_left-1.png'', im_width = 100, im_height = 50\<rparr>,
                 \<lparr>im_url = ''http://h/images/XRL_left-3.png'', im_width = 100, im_height = 50\<rparr>]),
             (''XRL_right'', []), (''XRL_main'', []), (''XRL_below'', [])]
   \<and> map_sum id (dr_files \<circ> snd)
        (render_page box_browser ''http://h'' \<lparr>dr_page = page_gaps, dr_files = []\<rparr>)
      = Inr [''images/full_page.png'', ''images/XRL_left-1.png'', ''images/XRL_left-3.png'']"
proof (intro conjI impI)
  show "map im_url (fst (capture_zone B base_url key 0 es [] dr))
     = map (\<lambda>k. base_url @ ''/images/'' @ key @ ''-'' @ str_nat k @ ''.png'') (captured B (dr_page dr) es)"
    by (simp add: capture_zone_result zone_images_def image_entry_def image_file_def comp_def)
  show "dr_files (snd (capture_zone B base_url key 0 es [] dr))
     = dr_files dr @ map (\<lambda>k. ''images/'' @ key @ ''-'' @ str_nat k @ ''.png'') (captured B (dr_page dr) es)"
    by (simp add: capture_zone_result zone_files_def image_file_def comp_def)
  show "sorted_wrt (<) (captured B (dr_page dr) es)"
    by (rule captured_sorted)
  show "image_file key k \<notin> set (zone_files B key (dr_page dr) es)"
    if "k \<notin> set (captured B (dr_page dr) es)"
    using that by (auto simp: zone_files_def dest: image_file_inj)
  show "map_sum id (zones \<circ> fst)
        (render_page box_browser ''http://h'' \<lparr>dr_page = page_gaps, dr_files = []\<rparr>)
      = Inr [(''XRL_head'', []),
             (''XRL_left'',
                [\<lparr>im_url = ''http://h/images/XRL_left-1.png'', im_width = 100, im_height = 50\<rparr>,
                 \<lparr>im_url = ''http://h/images/XRL_left-3.png'', im_width = 100, im_height = 50\<rparr>]),
             (''XRL_right'', []), (''XRL_main'', []), (''XRL_below'', [])]"
    by code_simp
  show "map_sum id (dr_files \<circ> snd)
        (render_page box_browser ''http://h'' \<lparr>dr_page = page_gaps, dr_files = []\<rparr>)
      = Inr [''images/full_page.png'', ''images/XRL_left-1.png'', ''images/XRL_left-3.png'']"
    by code_simp
qed

theorem manifest_index_gaps_witness:
  "0 \<notin> set (captured box_browser (dr_page \<lparr>dr_page = snapshot_page box_browser page_gaps [1], dr_files = []\<rparr>)
              [[1, 0], [1, 1], [1, 2], [1, 3]])
   \<and> image_file ''XRL_left'' 0
       \<notin> set (zone_files box_browser ''XRL_left''
                 (dr_page \<lparr>dr_page = snapshot_page box_browser page_gaps [1], dr_files = []\<rparr>)
                 [[1, 0], [1, 1], [1, 2], [1, 3]])"
proof -
  have c: "0 \<notin> set (captured box_browser (dr_page \<lparr>dr_page = snapshot_page box_browser page_gaps [1], dr_files = []\<rparr>)
              [[1, 0], [1, 1], [1, 2], [1, 3]])"
    by code_simp
  from manifest_index_gaps [of box_browser _ "''XRL_left''" "[[1, 0], [1, 1], [1, 2], [1, 3]]"
      "\<lparr>dr_page = snapshot_page box_browser page_gaps [1], dr_files = []\<rparr>" 0,
      THEN conjunct2, THEN conjunct2, THEN conjunct2, THEN conjunct1] c
  have "image_file ''XRL_left'' 0
       \<notin> set (zone_files box_browser ''XRL_left''
                 (dr_page \<lparr>dr_page = snapshot_page box_browser page_gaps [1], dr_files = []\<rparr>)
                 [[1, 0], [1, 1], [1, 2], [1, 3]])"
    by (rule mp)
  with c show ?thesis
    by (intro conjI)
qed



section \<open>Visibility Resolver\<close>

lemma upd_style_id: "f (pg_styles pg q) = pg_styles pg q \<Longrightarrow> upd_style f pg q = pg"
  by (simp add: upd_style_def)

lemma foldl_upd_style_id:
  "(\<And>q. q \<in> set qs \<Longrightarrow> f (pg_styles pg q) = pg_styles pg q) \<Longrightarrow> foldl (upd_style f) pg qs = pg"
  by (induction qs) (simp_all add: upd_style_id)

lemma collect_effective:
  "(\<And>p. p \<in> set ps \<Longrightarrow> \<not> ineffective B pg p) \<Longrightarrow> foldl (collect B pg) acc ps = acc"
  by (induction ps arbitrary: acc) (simp_all add: collect_def)

lemma force_style_idem: "force_style (force_style st) = force_style st"
  by (simp add: force_style_def)

lemma resolve_page_styles:
  "\<exists>cs us. pg_styles (resolve_page B pg b) =
     (\<lambda>q. (if q \<in> us then force_style else id)
             ((if q \<in> cs then (\<lambda>st. st\<lparr>st_maxWidth := ''none''\<rparr>) else id)
               ((if q = b then (\<lambda>st. st\<lparr>st_transform := ''scale(1)'', st_transformOrigin := ''0 0''\<rparr>) else id)
                 (pg_styles pg q))))
     \<and> cs = set (find_by_class pg ''XRL-container'')"
proof -
  define pg1 where "pg1 = upd_style (\<lambda>st. st\<lparr>st_transform := ''scale(1)'', st_transformOrigin := ''0 0''\<rparr>) pg b"
  define pg2 where "pg2 = foldl (upd_style (\<lambda>st. st\<lparr>st_maxWidth := ''none''\<rparr>)) pg1
                  (find_by_class pg1 ''XRL-container'')"
  define us where "us = foldl (collect B pg2) []
                  (find_by_classes pg2 [''XRL-head'', ''XRL-left'', ''XRL-right'', ''XRL-main'', ''XRL-below''])"
  have r: "resolve_page B pg b = foldl (upd_style force_style) pg2 us"
    by (simp add: resolve_page_def Let_def pg1_def pg2_def us_def)
  have c: "find_by_class pg1 ''XRL-container'' = find_by_class pg ''XRL-container''"
    by (rule find_by_class_root) (simp add: pg1_def upd_style_root)
  have s1: "pg_styles pg1 q = (if q = b then (pg_styles pg q)\<lparr>st_transform := ''scale(1)'', st_transformOrigin := ''0 0''\<rparr>
                                else pg_styles pg q)" for q
    by (simp add: pg1_def upd_style_styles)
  have s2: "pg_styles pg2 q = (if q \<in> set (find_by_class pg ''XRL-container'')
                                then (pg_styles pg1 q)\<lparr>st_maxWidth := ''none''\<rparr> else pg_styles pg1 q)" for q
    unfolding pg2_def c by (rule foldl_upd_style_styles) simp
  have s3: "pg_styles (resolve_page B pg b) q = (if q \<in> set us then force_style (pg_styles pg2 q)
                                                  else pg_styles pg2 q)" for q
    unfolding r by (rule foldl_upd_style_styles) (rule force_style_idem)
  have "pg_styles (resolve_page B pg b) =
     (\<lambda>q. (if q \<in> set us then force_style else id)
        ((if q \<in> set (find_by_class pg ''XRL-container'') then (\<lambda>st. st\<lparr>st_maxWidth := ''none''\<rparr>) else id)
          ((if q = b then (\<lambda>st. st\<lparr>st_transform := ''scale(1)'', st_transformOrigin := ''0 0''\<rparr>) else id)
            (pg_styles pg q))))"
    by (rule ext) (simp add: s1 s2 s3)
  then show ?thesis
    by blast
qed

text \<open>
  Claim C8. Let the script of lines 393 to 425 have run once on a page with a body. If
  on the page it leaves none of the elements with a zone class is ineffectively visible
  (zero \<^verbatim>\<open>offsetWidth\<close>, zero \<^verbatim>\<open>offsetHeight\<close> or computed visibility \<open>hidden\<close>),
  then running the script again returns the same page: no style of any element changes.
\<close>

theorem resolver_idempotent:
  assumes "document_body pg = Some b"
    and "\<forall>q \<in> set (find_by_classes (resolve_page B pg b)
                      [''XRL-head'', ''XRL-left'', ''XRL-right'', ''XRL-main'', ''XRL-below'']).
           \<not> ineffective B (resolve_page B pg b) q"
  shows "resolve_visibility B pg = Inr (resolve_page B pg b)
    \<and> resolve_visibility B (resolve_page B pg b) = Inr (resolve_page B pg b)"
proof -
  define pg' where "pg' = resolve_page B pg b"
  obtain cs us where st: "pg_styles pg' =
     (\<lambda>q. (if q \<in> us then force_style else id)
             ((if q \<in> cs then (\<lambda>st. st\<lparr>st_maxWidth := ''none''\<rparr>) else id)
               ((if q = b then (\<lambda>st. st\<lparr>st_transform := ''scale(1)'', st_transformOrigin := ''0 0''\<rparr>) else id)
                 (pg_styles pg q))))"
    and cs: "cs = set (find_by_class pg ''XRL-container'')"
    using resolve_page_styles [of B pg b] unfolding pg'_def by blast
  have root: "pg_root pg' = pg_root pg"
    unfolding pg'_def by (rule resolve_page_root)
  have body: "document_body pg' = Some b"
    using assms(1) document_body_root [OF root] by simp
  have 1: "upd_style (\<lambda>st. st\<lparr>st_transform := ''scale(1)'', st_transformOrigin := ''0 0''\<rparr>) pg' b = pg'"
    by (rule upd_style_id) (simp add: st force_style_def)
  have 2: "foldl (upd_style (\<lambda>st. st\<lparr>st_maxWidth := ''none''\<rparr>)) pg' (find_by_class pg' ''XRL-container'') = pg'"
  proof (rule foldl_upd_style_id)
    fix q
    assume "q \<in> set (find_by_class pg' ''XRL-container'')"
    then have "q \<in> cs"
      using find_by_class_root [OF root, of "''XRL-container''"] by (simp add: cs)
    then show "pg_styles pg' q\<lparr>st_maxWidth := ''none''\<rparr> = pg_styles pg' q"
      by (simp add: st force_style_def)
  qed
  have 3: "foldl (collect B pg') []
             (find_by_classes pg' [''XRL-head'', ''XRL-left'', ''XRL-right'', ''XRL-main'', ''XRL-below'']) = []"
    using assms(2) unfolding pg'_def [symmetric] by (intro collect_effective) blast
  have "resolve_page B pg' b = pg'"
    by (simp add: resolve_page_def [of B pg' b] Let_def 1 2 3)
  then have "resolve_visibility B pg' = Inr pg'"
    by (simp add: resolve_visibility_def body)
  moreover have "resolve_visibility B pg = Inr pg'"
    by (simp add: resolve_visibility_def assms(1) pg'_def)
  ultimately show ?thesis
    unfolding pg'_def by simp
qed


theorem resolver_idempotent_witness:
  "document_body page_hidden = Some [1]
   \<and> find_by_classes (resolve_page box_browser page_hidden [1])
         [''XRL-head'', ''XRL-left'', ''XRL-right'', ''XRL-main'', ''XRL-below''] = [[1, 0, 0]]
   \<and> list_all (\<lambda>q. \<not> ineffective box_browser (resolve_page box_browser page_hidden [1]) q)
         (find_by_classes (resolve_page box_browser page_hidden [1])
            [''XRL-head'', ''XRL-left'', ''XRL-right'', ''XRL-main'', ''XRL-below''])
   \<and> map (\<lambda>q. st_display (pg_styles (resolve_page box_browser page_hidden [1]) q)) [[1], [1, 0], [1, 0, 0]]
       = [[], ''flex'', ''flex'']
   \<and> resolve_visibility box_browser (resolve_page box_browser page_hidden [1])
       = Inr (resolve_page box_browser page_hidden [1])"
proof -
  have b: "document_body page_hidden = Some [1]"
    by code_simp
  have f: "find_by_classes (resolve_page box_browser page_hidden [1])
         [''XRL-head'', ''XRL-left'', ''XRL-right'', ''XRL-main'', ''XRL-below''] = [[1, 0, 0]]"
    by code_simp
  have e: "list_all (\<lambda>q. \<not> ineffective box_browser (resolve_page box_browser page_hidden [1]) q)
         (find_by_classes (resolve_page box_browser page_hidden [1])
            [''XRL-head'', ''XRL-left'', ''XRL-right'', ''XRL-main'', ''XRL-below''])"
    by code_simp
  have d: "map (\<lambda>q. st_display (pg_styles (resolve_page box_browser page_hidden [1]) q)) [[1], [1, 0], [1, 0, 0]]
       = [[], ''flex'', ''flex'']"
    by code_simp
  from e have h: "\<forall>q \<in> set (find_by_classes (resolve_page box_browser page_hidden [1])
                      [''XRL-head'', ''XRL-left'', ''XRL-right'', ''XRL-main'', ''XRL-below'']).
           \<not> ineffective box_browser (resolve_page box_browser page_hidden [1]) q"
    unfolding list_all_iff .
  from resolver_idempotent [OF b h, THEN conjunct2] b f e d show ?thesis
    by (intro conjI)
qed

section \<open>Isolation\<close>

lemma show_style_idem: "show_style (show_style st) = show_style st"
  by (simp add: show_style_def)

lemma hide_style_idem: "hide_style (hide_style st) = hide_style st"
  by (simp add: hide_style_def)

lemma hide_other_elements_styles:
  "pg_styles (hide_other_elements pg p) q =
     (if q \<in> set (elements_to_hide pg p)
      then hide_style (if q \<in> set (elements_to_show pg p) then show_style (pg_styles pg q) else pg_styles pg q)
      else if q \<in> set (elements_to_show pg p) then show_style (pg_styles pg q) else pg_styles pg q)"
proof -
  define pg1 where "pg1 = foldl (upd_style show_style) pg (elements_to_show pg p)"
  have h: "elements_to_hide pg1 p = elements_to_hide pg p"
    by (simp add: elements_to_hide_def pg1_def all_elements_root [OF foldl_upd_style_root])
  have s1: "pg_styles pg1 q = (if q \<in> set (elements_to_show pg p) then show_style (pg_styles pg q)
                               else pg_styles pg q)"
    unfolding pg1_def by (rule foldl_upd_style_styles) (rule show_style_idem)
  have "pg_styles (hide_other_elements pg p) q
        = (if q \<in> set (elements_to_hide pg p) then hide_style (pg_styles pg1 q) else pg_styles pg1 q)"
    unfolding hide_other_elements_def Let_def pg1_def [symmetric] h
    by (rule foldl_upd_style_styles) (rule hide_style_idem)
  then show ?thesis
    by (simp add: s1)
qed

text \<open>The isolation of \<open>p\<close> leaves the style of \<open>p\<close> itself, and of every element that
  is neither above nor below \<open>p\<close>, as it was.\<close>

lemma hide_other_elements_elsewhere:
  assumes "\<not> proper_prefix q p" and "\<not> proper_prefix p q"
  shows "pg_styles (hide_other_elements pg p) q = pg_styles pg q"
proof -
  have "q \<notin> set (elements_to_show pg p)"
    using assms by (auto simp: elements_to_show_def)
  moreover have "q \<notin> set (elements_to_hide pg p)"
    using assms by (auto simp: elements_to_hide_def)
  ultimately show ?thesis
    by (simp add: hide_other_elements_styles)
qed

text \<open>
  Claim C7. The isolation should show the target and its ancestors and hide every other
  element of the page that carries a marker class, leaving nothing behind from one call
  to the next. The code does not: on the page with two left elements side by side, the
  isolation of the first leaves the second as it was (not hidden), and leaves the target
  itself as it was. On the page with a head element inside a head element, the isolation
  of the outer one hides the inner one, and the isolation of the inner one afterwards
  does not undo it (its \<open>display\<close> stays \<open>none\<close>, whereas on the fresh page it is
  unset): with a layout that gives no box to an element with \<open>display: none\<close> the
  inner element is then skipped, and the head zone of the manifest has the entry of the
  outer element only.
\<close>

theorem isolation_leaves_state:
  "pg_styles (hide_other_elements page_two_left [1, 0]) [1, 1] = blank_style
   \<and> pg_styles (hide_other_elements page_two_left [1, 0]) [1, 0] = blank_style
   \<and> find_by_class page_nested_head ''XRL-head'' = [[1, 0], [1, 0, 0]]
   \<and> st_display (pg_styles (hide_other_elements page_nested_head [1, 0, 0]) [1, 0, 0]) = []
   \<and> st_display (pg_styles (hide_other_elements (hide_other_elements page_nested_head [1, 0]) [1, 0, 0])
         [1, 0, 0]) = ''none''
   \<and> map_sum id (zones \<circ> fst)
        (render_page box_browser ''http://h'' \<lparr>dr_page = page_nested_head, dr_files = []\<rparr>)
      = Inr [(''XRL_head'',
                [\<lparr>im_url = ''http://h/images/XRL_head-0.png'', im_width = 100, im_height = 50\<rparr>]),
             (''XRL_left'', []), (''XRL_right'', []), (''XRL_main'', []), (''XRL_below'', [])]"
  by code_simp


end
